theory Spec2Isabelle
  imports Main
begin

section \<open>The user routes of the sheet-music backend (backend/routes/users.js)\<close>

text \<open>
  The module registers six Express routes on one router. Each route is an authorization
  middleware followed by an async handler of the shape
  \<^verbatim>\<open>try { ... return res.json(...) } catch (err) { return next(err) }\<close>.
  The handlers call collaborators that live in other modules (the User model, the token
  helper, the schema validator, axios); those are parameters of the model, gathered in
  one environment record. Every call of a collaborator is appended to a call log, so
  that "is never invoked" and "performs no request" are statements about the log.
\<close>

subsection \<open>JavaScript values\<close>

text \<open>
  The values that cross the HTTP boundary (request bodies, the catalog's answer).
  Numbers are restricted to the integers: no handler computes with a number.
  An object is the list of its own properties; the first binding of a name wins.
\<close>

datatype json =
    JUndefined
  | JNull
  | JBool bool
  | JNum int
  | JStr string
  | JArr "json list"
  | JObj "(string \<times> json) list"

text \<open>
  The errors a handler can pass to \<^verbatim>\<open>next\<close>: the classes of expressError the module
  and the specification name, the two language errors the handlers can raise themselves,
  and a rejection coming from outside (a failed HTTP request, a database error).
\<close>

datatype error =
    BadRequestError "string list"
  | UnauthorizedError string
  | ForbiddenError
  | NotFoundError
  | ConflictError
  | ReferenceError string
  | TypeError string
  | ExternalError string

text \<open>
  Property read \<^verbatim>\<open>v.k\<close>. Reading a property of \<^verbatim>\<open>undefined\<close> or \<^verbatim>\<open>null\<close> throws a
  TypeError; a name an object does not have reads as \<^verbatim>\<open>undefined\<close>. The names this
  module reads (password, work, title, composer, complete_name) exist on no boolean,
  number, string or array, so those read as \<^verbatim>\<open>undefined\<close> there.
\<close>

fun getProp :: "json \<Rightarrow> string \<Rightarrow> error + json" where
  "getProp JUndefined k = Inl (TypeError (''Cannot read properties of undefined (reading '' @ k @ '')''))"
| "getProp JNull k = Inl (TypeError (''Cannot read properties of null (reading '' @ k @ '')''))"
| "getProp (JObj kvs) k = Inr (case map_of kvs k of None \<Rightarrow> JUndefined | Some v \<Rightarrow> v)"
| "getProp v k = Inr JUndefined"

text \<open>Truthiness, as \<^verbatim>\<open>if (isValid)\<close> tests it.\<close>

fun truthy :: "json \<Rightarrow> bool" where
  "truthy JUndefined = False"
| "truthy JNull = False"
| "truthy (JBool b) = b"
| "truthy (JNum n) = (n \<noteq> 0)"
| "truthy (JStr s) = (s \<noteq> [])"
| "truthy (JArr xs) = True"
| "truthy (JObj kvs) = True"

subsection \<open>Users and library entries\<close>

text \<open>
  The shapes the route comments give:
  works is \<^verbatim>\<open>[{ id, api_id, owned, played, digital, physical, notes, loanedout, title, composer }...]\<close>.
  \<open>api_id = None\<close> stands for an api_id that is \<^verbatim>\<open>undefined\<close> or \<^verbatim>\<open>null\<close>, the two
  values the handler tests for. title and composer hold whatever the handler assigns;
  \<open>JUndefined\<close> is an absent field. The field notes is \<open>work_notes\<close> here.
\<close>

record work =
  work_id :: int
  api_id :: "int option"
  owned :: bool
  played :: bool
  digital :: bool
  physical :: bool
  work_notes :: string
  loanedout :: bool
  title :: json
  composer :: json

text \<open>
  \<open>works = None\<close> stands for a works property that is absent (falsy): User.register and
  User.update return users without one.
\<close>

record user =
  username :: string
  name :: string
  email :: string
  isAdmin :: bool
  works :: "work list option"

subsection \<open>Collaborators\<close>

text \<open>
  \<^verbatim>\<open>jsonschema.validate(req.body, schema)\<close> returns a result with \<^verbatim>\<open>valid\<close> and \<^verbatim>\<open>errors\<close>,
  each error carrying its \<^verbatim>\<open>stack\<close> text. The two schemas are JSON files the module requires.
\<close>

record validation_error =
  stack :: string

record validator_result =
  valid :: bool
  errors :: "validation_error list"

datatype schema = userNewSchema | userUpdateSchema

text \<open>
  A call of a collaborator, as it is logged. \<open>'n\<close> is the type of JavaScript numbers,
  which only \<^verbatim>\<open>User.addToUserLib\<close> receives.
\<close>

datatype 'n call =
    CallRegister json
  | CallCreateToken user
  | CallFindAll
  | CallGet string
  | CallAxiosGet string
  | CallAuthenticate string json
  | CallUpdate string json
  | CallRemove string
  | CallAddToUserLib 'n 'n

text \<open>
  The environment of the module. \<open>'w\<close> is the world outside the handlers: the database
  behind the User model and the remote catalog. An awaited call takes the world and
  gives back its result (\<open>Inl\<close>: the promise rejected, the call threw) and the new world.
  \<^item> \<open>unary_plus\<close> is the language's \<^verbatim>\<open>+s\<close> on a string (ToNumber), left abstract;
  \<^item> \<open>global_api_id\<close> is what the identifier \<^verbatim>\<open>api_id\<close> resolves to, as text: the module
    binds no such name (not at module level, not in the handler, not in the loop), so
    it is looked up on the global object; \<open>None\<close> when there is no such global, which
    is the case in Node unless some other code defines one.
\<close>

record ('w, 'n) env =
  jsonschema_validate :: "json \<Rightarrow> schema \<Rightarrow> validator_result"
  User_register :: "json \<Rightarrow> 'w \<Rightarrow> (error + user) \<times> 'w"
  User_findAll :: "'w \<Rightarrow> (error + user list) \<times> 'w"
  User_get :: "string \<Rightarrow> 'w \<Rightarrow> (error + user) \<times> 'w"
  User_authenticate :: "string \<Rightarrow> json \<Rightarrow> 'w \<Rightarrow> (error + json) \<times> 'w"
  User_update :: "string \<Rightarrow> json \<Rightarrow> 'w \<Rightarrow> (error + user) \<times> 'w"
  User_remove :: "string \<Rightarrow> 'w \<Rightarrow> (error + unit) \<times> 'w"
  User_addToUserLib :: "'n \<Rightarrow> 'n \<Rightarrow> 'w \<Rightarrow> (error + unit) \<times> 'w"
  createToken :: "user \<Rightarrow> string"
  axios_get :: "string \<Rightarrow> 'w \<Rightarrow> (error + json) \<times> 'w"
  unary_plus :: "string \<Rightarrow> 'n"
  global_api_id :: "string option"

text \<open>The state a handler threads: the world and the log of the calls made so far.\<close>

type_synonym ('w, 'n) st = "'w \<times> 'n call list"

text \<open>Calling a collaborator: the call is logged, the world is the one it leaves.\<close>

definition invoke ::
  "'n call \<Rightarrow> ('w \<Rightarrow> (error + 'a) \<times> 'w) \<Rightarrow> ('w, 'n) st \<Rightarrow> (error + 'a) \<times> ('w, 'n) st" where
  "invoke c f s = (case f (fst s) of (r, w') \<Rightarrow> (r, (w', snd s @ [c])))"

subsection \<open>Responses\<close>

text \<open>
  The bodies the handlers send with \<^verbatim>\<open>res.json\<close>, and what a handler ends with: a response
  with its status (200 unless \<^verbatim>\<open>res.status\<close> sets another), or \<^verbatim>\<open>next(err)\<close>.
\<close>

datatype body =
    UserToken user string
  | Users "user list"
  | UserBody user
  | Deleted string
  | Added string

datatype outcome = Respond nat body | Next error

text \<open>The \<^verbatim>\<open>try { ... } catch (err) { return next(err) }\<close> around every handler body.\<close>

definition try_catch :: "(error + outcome) \<times> 's \<Rightarrow> outcome \<times> 's" where
  "try_catch r = (case r of (Inl err, s) \<Rightarrow> (Next err, s) | (Inr out, s) \<Rightarrow> (out, s))"

subsection \<open>GET /:username\<close>

definition url :: string where
  "url = ''https://api.openopus.org''"

text \<open>
  The argument of \<^verbatim>\<open>axios.get\<close>, the template literal
  \<^verbatim>\<open>`${url}/work/detail/${api_id}.json`\<close>: it reads the identifier \<^verbatim>\<open>api_id\<close>, not
  \<^verbatim>\<open>work.api_id\<close>. Reading an identifier that is bound nowhere throws a ReferenceError,
  before \<^verbatim>\<open>axios.get\<close> is called.
\<close>

definition detail_url :: "('w, 'n) env \<Rightarrow> error + string" where
  "detail_url env =
     (case global_api_id env of
        None \<Rightarrow> Inl (ReferenceError ''api_id is not defined'')
      | Some a \<Rightarrow> Inr (url @ ''/work/detail/'' @ a @ ''.json''))"

text \<open>
  \<^verbatim>\<open>await axios.get(`${url}/work/detail/${api_id}.json`)\<close>: the argument is evaluated
  first; the request is made, and logged, only when that succeeds.
\<close>

definition lookup_work :: "('w, 'n) env \<Rightarrow> ('w, 'n) st \<Rightarrow> (error + json) \<times> ('w, 'n) st" where
  "lookup_work env s =
     (case detail_url env of
        Inl e \<Rightarrow> (Inl e, s)
      | Inr u \<Rightarrow> invoke (CallAxiosGet u) (axios_get env u) s)"

text \<open>\<^verbatim>\<open>outsideWork.work.title\<close> and \<^verbatim>\<open>outsideWork.composer.complete_name\<close>.\<close>

definition read_path :: "json \<Rightarrow> string \<Rightarrow> string \<Rightarrow> error + json" where
  "read_path v k1 k2 = (case getProp v k1 of Inl e \<Rightarrow> Inl e | Inr x \<Rightarrow> getProp x k2)"

text \<open>
  The body of the loop, for one entry. The entry is mutated in place in the source; the
  model returns the updated entry. When a step throws, the handler answers with the
  error only, so an entry half updated is never seen.
\<close>

definition enrich_work ::
  "('w, 'n) env \<Rightarrow> work \<Rightarrow> ('w, 'n) st \<Rightarrow> (error + work) \<times> ('w, 'n) st" where
  "enrich_work env work s =
     (if api_id work \<noteq> None then
        (case lookup_work env s of
           (Inl e, s') \<Rightarrow> (Inl e, s')
         | (Inr outsideWork, s') \<Rightarrow>
             (case read_path outsideWork ''work'' ''title'' of
                Inl e \<Rightarrow> (Inl e, s')
              | Inr t \<Rightarrow>
                  (case read_path outsideWork ''composer'' ''complete_name'' of
                     Inl e \<Rightarrow> (Inl e, s')
                   | Inr c \<Rightarrow> (Inr (work\<lparr>title := t, composer := c\<rparr>), s'))))
      else (Inr work, s))"

text \<open>\<^verbatim>\<open>for (let work of user.works)\<close>: the entries in order, each lookup awaited in turn.\<close>

fun enrich_works ::
  "('w, 'n) env \<Rightarrow> work list \<Rightarrow> ('w, 'n) st \<Rightarrow> (error + work list) \<times> ('w, 'n) st" where
  "enrich_works env [] s = (Inr [], s)"
| "enrich_works env (work # rest) s =
     (case enrich_work env work s of
        (Inl e, s') \<Rightarrow> (Inl e, s')
      | (Inr work', s') \<Rightarrow>
          (case enrich_works env rest s' of
             (Inl e, s'') \<Rightarrow> (Inl e, s'')
           | (Inr rest', s'') \<Rightarrow> (Inr (work' # rest'), s'')))"

definition get_user_body ::
  "('w, 'n) env \<Rightarrow> string \<Rightarrow> ('w, 'n) st \<Rightarrow> (error + outcome) \<times> ('w, 'n) st" where
  "get_user_body env uname s =
     (case invoke (CallGet uname) (User_get env uname) s of
        (Inl e, s1) \<Rightarrow> (Inl e, s1)
      | (Inr user, s1) \<Rightarrow>
          (case works user of
             None \<Rightarrow> (Inr (Respond 200 (UserBody user)), s1)
           | Some ws \<Rightarrow>
               if length ws > 1 then
                 (case enrich_works env ws s1 of
                    (Inl e, s2) \<Rightarrow> (Inl e, s2)
                  | (Inr ws', s2) \<Rightarrow>
                      (Inr (Respond 200 (UserBody (user\<lparr>works := Some ws'\<rparr>))), s2))
               else (Inr (Respond 200 (UserBody user)), s1)))"

definition get_user ::
  "('w, 'n) env \<Rightarrow> string \<Rightarrow> ('w, 'n) st \<Rightarrow> outcome \<times> ('w, 'n) st" where
  "get_user env uname s = try_catch (get_user_body env uname s)"

subsection \<open>POST /, GET /, PATCH /:username, DELETE /:username, POST /:id/userLib/:workId\<close>

text \<open>
  POST /: the body is validated against the new-user schema; an invalid body throws a
  BadRequestError carrying the stacks of the validator's errors. Then User.register is
  awaited, a token is made for the user it returns, and both are sent with status 201.
  \<^verbatim>\<open>createToken\<close> is synchronous; its call is logged like the others.
\<close>

definition post_users_body ::
  "('w, 'n) env \<Rightarrow> json \<Rightarrow> ('w, 'n) st \<Rightarrow> (error + outcome) \<times> ('w, 'n) st" where
  "post_users_body env reqBody s =
     (let validator = jsonschema_validate env reqBody userNewSchema in
      if \<not> valid validator then (Inl (BadRequestError (map stack (errors validator))), s)
      else
        (case invoke (CallRegister reqBody) (User_register env reqBody) s of
           (Inl e, s1) \<Rightarrow> (Inl e, s1)
         | (Inr user, s1) \<Rightarrow>
             (let token = createToken env user in
              (Inr (Respond 201 (UserToken user token)), (fst s1, snd s1 @ [CallCreateToken user])))))"

definition post_users ::
  "('w, 'n) env \<Rightarrow> json \<Rightarrow> ('w, 'n) st \<Rightarrow> outcome \<times> ('w, 'n) st" where
  "post_users env reqBody s = try_catch (post_users_body env reqBody s)"

definition get_users :: "('w, 'n) env \<Rightarrow> ('w, 'n) st \<Rightarrow> outcome \<times> ('w, 'n) st" where
  "get_users env s =
     try_catch
       (case invoke CallFindAll (User_findAll env) s of
          (Inl e, s1) \<Rightarrow> (Inl e, s1)
        | (Inr users, s1) \<Rightarrow> (Inr (Respond 200 (Users users)), s1))"

text \<open>
  PATCH /:username: validation first; then the arguments of \<^verbatim>\<open>User.authenticate\<close> are
  evaluated (\<^verbatim>\<open>req.body.password\<close> is a property read) and the call is awaited; a truthy
  answer leads to \<^verbatim>\<open>User.update\<close>, any other to
  \<^verbatim>\<open>throw new UnauthorizedError("Bad password")\<close>.
\<close>

definition patch_user_body ::
  "('w, 'n) env \<Rightarrow> string \<Rightarrow> json \<Rightarrow> ('w, 'n) st \<Rightarrow> (error + outcome) \<times> ('w, 'n) st" where
  "patch_user_body env uname reqBody s =
     (let validator = jsonschema_validate env reqBody userUpdateSchema in
      if \<not> valid validator then (Inl (BadRequestError (map stack (errors validator))), s)
      else
        (case getProp reqBody ''password'' of
           Inl e \<Rightarrow> (Inl e, s)
         | Inr pw \<Rightarrow>
             (case invoke (CallAuthenticate uname pw) (User_authenticate env uname pw) s of
                (Inl e, s1) \<Rightarrow> (Inl e, s1)
              | (Inr isValid, s1) \<Rightarrow>
                  if truthy isValid then
                    (case invoke (CallUpdate uname reqBody) (User_update env uname reqBody) s1 of
                       (Inl e, s2) \<Rightarrow> (Inl e, s2)
                     | (Inr user, s2) \<Rightarrow> (Inr (Respond 200 (UserBody user)), s2))
                  else (Inl (UnauthorizedError ''Bad password''), s1))))"

definition patch_user ::
  "('w, 'n) env \<Rightarrow> string \<Rightarrow> json \<Rightarrow> ('w, 'n) st \<Rightarrow> outcome \<times> ('w, 'n) st" where
  "patch_user env uname reqBody s = try_catch (patch_user_body env uname reqBody s)"

definition delete_user ::
  "('w, 'n) env \<Rightarrow> string \<Rightarrow> ('w, 'n) st \<Rightarrow> outcome \<times> ('w, 'n) st" where
  "delete_user env uname s =
     try_catch
       (case invoke (CallRemove uname) (User_remove env uname) s of
          (Inl e, s1) \<Rightarrow> (Inl e, s1)
        | (Inr u, s1) \<Rightarrow> (Inr (Respond 200 (Deleted uname)), s1))"

text \<open>
  POST /:id/userLib/:workId: \<^verbatim>\<open>User.addToUserLib(+req.params.id, +req.params.workId)\<close>,
  then \<^verbatim>\<open>{ added: req.params.workId }\<close>: the call gets the two parameters as numbers, the
  answer carries the workId parameter as the string it came as.
\<close>

definition post_userLib ::
  "('w, 'n) env \<Rightarrow> string \<Rightarrow> string \<Rightarrow> ('w, 'n) st \<Rightarrow> outcome \<times> ('w, 'n) st" where
  "post_userLib env idParam workId s =
     try_catch
       (case invoke (CallAddToUserLib (unary_plus env idParam) (unary_plus env workId))
               (User_addToUserLib env (unary_plus env idParam) (unary_plus env workId)) s of
          (Inl e, s1) \<Rightarrow> (Inl e, s1)
        | (Inr u, s1) \<Rightarrow> (Inr (Respond 200 (Added workId)), s1))"

subsection \<open>Authorization middleware\<close>

text \<open>The identity decoded from the caller's token, when there is one.\<close>

record identity =
  ident_username :: string
  ident_isAdmin :: bool

text \<open>
  Modelled from the spec: middleware/auth.js (ensureAdmin) is not among the sources.
  "AdminOnly: allow if identity.isAdmin == true; else fail with Forbidden. Absence of a
  decoded identity at all (no/invalid token) fails earlier with Unauthorized."
  The spec gives the Unauthorized error no message.
\<close>

definition ensureAdmin :: "identity option \<Rightarrow> error + unit" where
  "ensureAdmin ident =
     (case ident of
        None \<Rightarrow> Inl (UnauthorizedError [])
      | Some i \<Rightarrow> if ident_isAdmin i then Inr () else Inl ForbiddenError)"

text \<open>
  Modelled from the spec: middleware/auth.js (ensureCorrectUserOrAdmin) is not among the
  sources. "SelfOrAdmin(routeUsername): allow if identity.isAdmin == true OR
  identity.username == routeUsername; else fail with Forbidden", and Unauthorized when
  there is no decoded identity.
\<close>

definition ensureCorrectUserOrAdmin :: "identity option \<Rightarrow> string \<Rightarrow> error + unit" where
  "ensureCorrectUserOrAdmin ident routeUsername =
     (case ident of
        None \<Rightarrow> Inl (UnauthorizedError [])
      | Some i \<Rightarrow>
          if ident_isAdmin i \<or> ident_username i = routeUsername then Inr ()
          else Inl ForbiddenError)"

text \<open>
  A route: the middleware runs first; when it fails it calls \<^verbatim>\<open>next(err)\<close> and the handler
  does not run, otherwise the handler runs.
\<close>

definition guarded ::
  "error + unit \<Rightarrow> ('s \<Rightarrow> outcome \<times> 's) \<Rightarrow> 's \<Rightarrow> outcome \<times> 's" where
  "guarded g handler s = (case g of Inl e \<Rightarrow> (Next e, s) | Inr ok \<Rightarrow> handler s)"

definition route_post_users ::
  "('w, 'n) env \<Rightarrow> identity option \<Rightarrow> json \<Rightarrow> ('w, 'n) st \<Rightarrow> outcome \<times> ('w, 'n) st" where
  "route_post_users env ident reqBody = guarded (ensureAdmin ident) (post_users env reqBody)"

definition route_get_user ::
  "('w, 'n) env \<Rightarrow> identity option \<Rightarrow> string \<Rightarrow> ('w, 'n) st \<Rightarrow> outcome \<times> ('w, 'n) st" where
  "route_get_user env ident uname =
     guarded (ensureCorrectUserOrAdmin ident uname) (get_user env uname)"

definition route_patch_user ::
  "('w, 'n) env \<Rightarrow> identity option \<Rightarrow> string \<Rightarrow> json \<Rightarrow> ('w, 'n) st
     \<Rightarrow> outcome \<times> ('w, 'n) st" where
  "route_patch_user env ident uname reqBody =
     guarded (ensureCorrectUserOrAdmin ident uname) (patch_user env uname reqBody)"

text \<open>
  Modelled from the spec: expressError.js is not among the sources. The status each
  kind of failure surfaces with: "400 validation, 401 unauthenticated, 403 forbidden,
  404 not found, 409 conflict". The spec gives no status for the other errors.
\<close>

fun status_of :: "error \<Rightarrow> nat option" where
  "status_of (BadRequestError errs) = Some 400"
| "status_of (UnauthorizedError msg) = Some 401"
| "status_of ForbiddenError = Some 403"
| "status_of NotFoundError = Some 404"
| "status_of ConflictError = Some 409"
| "status_of e = None"

subsection \<open>The user directory\<close>

text \<open>
  Modelled from the spec: models/user.js is not among the sources. The stored user is
  "username (unique, immutable, primary identifier), name, email (unique), passwordHash
  (opaque), isAdmin"; "passwordHash is never serialized outward", so what the model
  returns is the user without the hash.
\<close>

record account =
  acc_username :: string
  acc_name :: string
  acc_email :: string
  acc_passwordHash :: string
  acc_isAdmin :: bool

definition account_view :: "account \<Rightarrow> user" where
  "account_view a =
     \<lparr>username = acc_username a, name = acc_name a, email = acc_email a,
      isAdmin = acc_isAdmin a, works = None\<rparr>"

definition str_prop :: "json \<Rightarrow> string \<Rightarrow> string option" where
  "str_prop v k = (case getProp v k of Inr (JStr x) \<Rightarrow> Some x | _ \<Rightarrow> None)"

text \<open>
  Modelled from the spec: models/user.js (User.register) is not among the sources.
  "register: enforces username/email uniqueness, hashes password via Credential Store,
  persists. Fails with Conflict on duplicate username/email, ValidationError on malformed
  input." The directory is the list of the stored users; \<open>hash\<close> is the Credential
  Store's hash. Validation against the schema and the token are the route's part.
\<close>

definition register ::
  "(string \<Rightarrow> string) \<Rightarrow> json \<Rightarrow> account list \<Rightarrow> (error + user) \<times> account list" where
  "register hash input dir =
     (case (str_prop input ''username'', str_prop input ''name'',
            str_prop input ''email'', str_prop input ''password'') of
        (Some u, Some n, Some e, Some p) \<Rightarrow>
          if list_ex (\<lambda>a. acc_username a = u \<or> acc_email a = e) dir
          then (Inl ConflictError, dir)
          else
            (let a = \<lparr>acc_username = u, acc_name = n, acc_email = e,
                      acc_passwordHash = hash p,
                      acc_isAdmin = (getProp input ''isAdmin'' = Inr (JBool True))\<rparr>
             in (Inr (account_view a), dir @ [a]))
      | _ \<Rightarrow> (Inl (BadRequestError []), dir))"

text \<open>
  A world to run the handlers in: the user directory, the users' libraries, and the
  answers the remote catalog will give to the next requests, in order.
\<close>

record world =
  accounts :: "account list"
  libraries :: "(string \<times> work list) list"
  catalog :: "(error + json) list"

text \<open>
  Modelled from the spec: User.register, as above, on the directory of such a world.
\<close>

definition directory_register ::
  "(string \<Rightarrow> string) \<Rightarrow> json \<Rightarrow> world \<Rightarrow> (error + user) \<times> world" where
  "directory_register hash input w =
     (case register hash input (accounts w) of (r, d) \<Rightarrow> (r, w\<lparr>accounts := d\<rparr>))"

subsection \<open>A reference environment\<close>

text \<open>
  An executable environment over that world, to run the handlers on concrete requests.
  It stands in for the database and the network; the general properties below are
  stated for every environment, the concrete runs name this one.
\<close>

definition sample_hash :: "string \<Rightarrow> string" where
  "sample_hash p = ''salted:'' @ p"

definition sample_validate :: "json \<Rightarrow> schema \<Rightarrow> validator_result" where
  "sample_validate v sch =
     (if (case sch of
            userNewSchema \<Rightarrow>
              str_prop v ''username'' \<noteq> None \<and> str_prop v ''name'' \<noteq> None \<and>
              str_prop v ''email'' \<noteq> None \<and> str_prop v ''password'' \<noteq> None
          | userUpdateSchema \<Rightarrow> str_prop v ''password'' \<noteq> None)
      then \<lparr>valid = True, errors = []\<rparr>
      else \<lparr>valid = False, errors = [\<lparr>stack = ''instance does not match the schema''\<rparr>]\<rparr>)"

definition sample_get :: "string \<Rightarrow> world \<Rightarrow> (error + user) \<times> world" where
  "sample_get u w =
     (case find (\<lambda>a. acc_username a = u) (accounts w) of
        None \<Rightarrow> (Inl NotFoundError, w)
      | Some a \<Rightarrow> (Inr ((account_view a)\<lparr>works := map_of (libraries w) u\<rparr>), w))"

definition sample_authenticate :: "string \<Rightarrow> json \<Rightarrow> world \<Rightarrow> (error + json) \<times> world" where
  "sample_authenticate u pw w =
     (case pw of
        JStr p \<Rightarrow>
          (Inr (JBool (list_ex (\<lambda>a. acc_username a = u \<and> acc_passwordHash a = sample_hash p)
                         (accounts w))), w)
      | _ \<Rightarrow> (Inr (JBool False), w))"

definition sample_update :: "string \<Rightarrow> json \<Rightarrow> world \<Rightarrow> (error + user) \<times> world" where
  "sample_update u v w =
     (case find (\<lambda>a. acc_username a = u) (accounts w) of
        None \<Rightarrow> (Inl NotFoundError, w)
      | Some a \<Rightarrow>
          (let a' = a\<lparr>acc_name := (case str_prop v ''name'' of None \<Rightarrow> acc_name a | Some n \<Rightarrow> n),
                      acc_email := (case str_prop v ''email'' of None \<Rightarrow> acc_email a | Some e \<Rightarrow> e)\<rparr>
           in (Inr (account_view a'),
               w\<lparr>accounts := map (\<lambda>x. if acc_username x = u then a' else x) (accounts w)\<rparr>)))"

definition sample_remove :: "string \<Rightarrow> world \<Rightarrow> (error + unit) \<times> world" where
  "sample_remove u w =
     (if list_ex (\<lambda>a. acc_username a = u) (accounts w)
      then (Inr (), w\<lparr>accounts := filter (\<lambda>a. acc_username a \<noteq> u) (accounts w),
                      libraries := filter (\<lambda>kv. fst kv \<noteq> u) (libraries w)\<rparr>)
      else (Inl NotFoundError, w))"

definition sample_axios_get :: "string \<Rightarrow> world \<Rightarrow> (error + json) \<times> world" where
  "sample_axios_get u w =
     (case catalog w of
        [] \<Rightarrow> (Inl (ExternalError ''no answer''), w)
      | a # rest \<Rightarrow> (a, w\<lparr>catalog := rest\<rparr>))"

text \<open>A library entry as it is stored: no title, no composer.\<close>

definition entry :: "int \<Rightarrow> int option \<Rightarrow> work" where
  "entry i a =
     \<lparr>work_id = i, api_id = a, owned = True, played = False, digital = False,
      physical = True, work_notes = [], loanedout = False,
      title = JUndefined, composer = JUndefined\<rparr>"

text \<open>Here the user with id \<open>i\<close> is the \<open>i\<close>-th account of the directory.\<close>

definition sample_addToUserLib :: "int \<Rightarrow> int \<Rightarrow> world \<Rightarrow> (error + unit) \<times> world" where
  "sample_addToUserLib i k w =
     (if 1 \<le> i \<and> i \<le> int (length (accounts w)) then
        (let u = acc_username (accounts w ! nat (i - 1));
             lib = (case map_of (libraries w) u of None \<Rightarrow> [] | Some l \<Rightarrow> l)
         in (Inr (), w\<lparr>libraries := (u, lib @ [entry k None]) # filter (\<lambda>kv. fst kv \<noteq> u) (libraries w)\<rparr>))
      else (Inl NotFoundError, w))"

text \<open>The number a string of decimal digits reads as, for \<^verbatim>\<open>+s\<close>.\<close>

definition sample_number :: "string \<Rightarrow> int" where
  "sample_number x = foldl (\<lambda>n c. 10 * n + (int (of_char c) - 48)) 0 x"

definition sample_env :: "(world, int) env" where
  "sample_env =
     \<lparr>jsonschema_validate = sample_validate,
      User_register = directory_register sample_hash,
      User_findAll = (\<lambda>w. (Inr (map account_view (accounts w)), w)),
      User_get = sample_get,
      User_authenticate = sample_authenticate,
      User_update = sample_update,
      User_remove = sample_remove,
      User_addToUserLib = sample_addToUserLib,
      createToken = (\<lambda>u. ''token-for-'' @ username u),
      axios_get = sample_axios_get,
      unary_plus = sample_number,
      global_api_id = None\<rparr>"

definition alice_account :: account where
  "alice_account =
     \<lparr>acc_username = ''alice'', acc_name = ''Alice'', acc_email = ''alice@example.org'',
      acc_passwordHash = sample_hash ''secret'', acc_isAdmin = False\<rparr>"

text \<open>An answer of exactly the shape the handler reads.\<close>

definition catalog_answer :: json where
  "catalog_answer =
     JObj [(''work'', JObj [(''title'', JStr ''Sonata'')]),
           (''composer'', JObj [(''complete_name'', JStr ''Clara Schumann'')])]"

definition sample_world :: "work list \<Rightarrow> (error + json) list \<Rightarrow> world" where
  "sample_world lib answers =
     \<lparr>accounts = [alice_account], libraries = [(''alice'', lib)], catalog = answers\<rparr>"

definition new_user_body :: "string \<Rightarrow> string \<Rightarrow> json" where
  "new_user_body u e =
     JObj [(''username'', JStr u), (''name'', JStr ''N''), (''email'', JStr e),
           (''password'', JStr ''pw123'')]"

definition bob_account :: account where
  "bob_account =
     \<lparr>acc_username = ''bob'', acc_name = ''N'', acc_email = ''b@x.com'',
      acc_passwordHash = sample_hash ''pw123'', acc_isAdmin = False\<rparr>"

definition carol_account :: account where
  "carol_account =
     \<lparr>acc_username = ''carol'', acc_name = ''N'', acc_email = ''carol@example.org'',
      acc_passwordHash = sample_hash ''pw123'', acc_isAdmin = False\<rparr>"

definition admin_identity :: identity where
  "admin_identity = \<lparr>ident_username = ''root'', ident_isAdmin = True\<rparr>"

section \<open>Properties\<close>

lemmas handler_defs = invoke_def try_catch_def guarded_def

lemmas sample_defs = sample_env_def sample_get_def sample_world_def alice_account_def
  sample_axios_get_def sample_validate_def sample_authenticate_def sample_update_def
  sample_addToUserLib_def sample_number_def sample_hash_def directory_register_def
  register_def str_prop_def catalog_answer_def entry_def account_view_def
  new_user_body_def url_def

subsection \<open>The enrichment loop\<close>

text \<open>The loop over a concatenation: the second part runs only when the first went through.\<close>

lemma enrich_works_append:
  "enrich_works env (xs @ ys) s =
     (case enrich_works env xs s of
        (Inl e, s') \<Rightarrow> (Inl e, s')
      | (Inr xs', s') \<Rightarrow>
          (case enrich_works env ys s' of
             (Inl e, s'') \<Rightarrow> (Inl e, s'')
           | (Inr ys', s'') \<Rightarrow> (Inr (xs' @ ys'), s'')))"
  by (induction xs arbitrary: s) (auto split: prod.splits sum.splits)

lemma enrich_work_lookup_fails:
  "api_id wk \<noteq> None \<Longrightarrow> lookup_work env s = (Inl e, s') \<Longrightarrow>
   enrich_work env wk s = (Inl e, s')"
  by (simp add: enrich_work_def)

text \<open>An entry without an api_id is left as it is, and nothing is requested for it.\<close>

lemma enrich_work_no_api_id: "api_id wk = None \<Longrightarrow> enrich_work env wk s = (Inr wk, s)"
  by (simp add: enrich_work_def)

subsection \<open>GET /:username\<close>

text \<open>
  C1. Every library entry with an api_id has its title and composer resolved from the
  catalog, also in a library of exactly one entry. The handler does not do that.
  First run: the library of alice holds one entry, with api_id 7. The loop runs only
  when \<^verbatim>\<open>user.works.length > 1\<close>, so even with a global \<^verbatim>\<open>api_id\<close> defined and a catalog
  that would answer, the response is the user as User.get returned it, the entry
  without title and composer, and no request was made.
  Second run: two entries, no global \<^verbatim>\<open>api_id\<close> (as in Node). The loop runs, and the first
  entry with an api_id makes the handler read the unbound identifier \<^verbatim>\<open>api_id\<close>: the
  request fails with a ReferenceError before any catalog request.
\<close>

theorem get_user_single_entry_not_enriched:
  "get_user (sample_env\<lparr>global_api_id := Some ''7''\<rparr>) ''alice''
       (sample_world [entry 1 (Some 7)] [Inr catalog_answer], []) =
     (Respond 200 (UserBody ((account_view alice_account)\<lparr>works := Some [entry 1 (Some 7)]\<rparr>)),
      (sample_world [entry 1 (Some 7)] [Inr catalog_answer], [CallGet ''alice'']))
   \<and> api_id (entry 1 (Some 7)) = Some 7
   \<and> title (entry 1 (Some 7)) = JUndefined
   \<and> composer (entry 1 (Some 7)) = JUndefined
   \<and> get_user sample_env ''alice''
       (sample_world [entry 1 (Some 7), entry 2 None] [Inr catalog_answer], []) =
     (Next (ReferenceError ''api_id is not defined''),
      (sample_world [entry 1 (Some 7), entry 2 None] [Inr catalog_answer], [CallGet ''alice'']))"
  by (simp add: get_user_def get_user_body_def enrich_work_def lookup_work_def detail_url_def
      handler_defs sample_defs)

text \<open>
  C2, as stated, fails: a failing lookup fails the request. Two entries with an api_id.
  In the first run a global \<^verbatim>\<open>api_id\<close> exists and the catalog rejects the first request
  (it would answer the second): the handler ends with \<^verbatim>\<open>next(err)\<close>, no user is sent, and
  the second lookup is never made. In the second run there is no such global, as in
  Node: the first lookup throws the ReferenceError and the request fails the same way.
\<close>

theorem get_user_failed_lookup_fails_request:
  "get_user (sample_env\<lparr>global_api_id := Some ''7''\<rparr>) ''alice''
       (sample_world [entry 1 (Some 7), entry 2 (Some 8)]
          [Inl (ExternalError ''timeout''), Inr catalog_answer], []) =
     (Next (ExternalError ''timeout''),
      (sample_world [entry 1 (Some 7), entry 2 (Some 8)] [Inr catalog_answer],
       [CallGet ''alice'', CallAxiosGet ''https://api.openopus.org/work/detail/7.json'']))
   \<and> get_user sample_env ''alice''
       (sample_world [entry 1 (Some 7), entry 2 (Some 8)]
          [Inr catalog_answer, Inr catalog_answer], []) =
     (Next (ReferenceError ''api_id is not defined''),
      (sample_world [entry 1 (Some 7), entry 2 (Some 8)]
         [Inr catalog_answer, Inr catalog_answer], [CallGet ''alice'']))"
  by (simp add: get_user_def get_user_body_def enrich_work_def lookup_work_def detail_url_def
      read_path_def handler_defs sample_defs)

text \<open>
  C2, amended. The lookups run one after the other inside the handler's single
  try/catch. In a library of more than one entry, when the entries before \<open>wk\<close> went
  through, \<open>wk\<close> has an api_id and its lookup fails with \<open>e\<close>, the handler ends with
  \<^verbatim>\<open>next(e)\<close> in the state that lookup left: no user is sent and nothing is requested for
  the entries after \<open>wk\<close>.
\<close>

theorem get_user_failed_lookup_aborts:
  assumes got: "User_get env uname w = (Inr user, w1)"
    and lib: "works user = Some (pre @ wk # post)"
    and many: "1 < length (pre @ wk # post)"
    and before: "enrich_works env pre (w1, [CallGet uname]) = (Inr pre', s2)"
    and wanted: "api_id wk \<noteq> None"
    and fails: "lookup_work env s2 = (Inl e, s3)"
  shows "get_user env uname (w, []) = (Next e, s3)"
proof -
  have "enrich_work env wk s2 = (Inl e, s3)"
    using wanted fails by (rule enrich_work_lookup_fails)
  then have "enrich_works env (wk # post) s2 = (Inl e, s3)"
    by simp
  with before have "enrich_works env (pre @ wk # post) (w1, [CallGet uname]) = (Inl e, s3)"
    by (simp add: enrich_works_append)
  with got lib many show ?thesis
    by (simp add: get_user_def get_user_body_def handler_defs)
qed

text \<open>
  Three entries, the catalog answers the first request and rejects the second: the
  request fails, and the third lookup is not made.
\<close>

theorem get_user_failed_lookup_aborts_witness:
  "get_user (sample_env\<lparr>global_api_id := Some ''7''\<rparr>) ''alice''
       (sample_world [entry 1 (Some 7), entry 2 (Some 8), entry 3 (Some 9)]
          [Inr catalog_answer, Inl (ExternalError ''timeout''), Inr catalog_answer], []) =
     (Next (ExternalError ''timeout''),
      (sample_world [entry 1 (Some 7), entry 2 (Some 8), entry 3 (Some 9)] [Inr catalog_answer],
       [CallGet ''alice'', CallAxiosGet ''https://api.openopus.org/work/detail/7.json'',
        CallAxiosGet ''https://api.openopus.org/work/detail/7.json'']))"
proof -
  let ?env = "sample_env\<lparr>global_api_id := Some ''7''\<rparr>"
  let ?lib = "[entry 1 (Some 7), entry 2 (Some 8), entry 3 (Some 9)]"
  let ?w = "sample_world ?lib
              [Inr catalog_answer, Inl (ExternalError ''timeout''), Inr catalog_answer]"
  let ?user = "(account_view alice_account)
                 \<lparr>works := Some ([entry 1 (Some 7)] @ entry 2 (Some 8) # [entry 3 (Some 9)])\<rparr>"
  let ?u = "''https://api.openopus.org/work/detail/7.json''"
  let ?s2 = "(sample_world ?lib [Inl (ExternalError ''timeout''), Inr catalog_answer],
              [CallGet ''alice'', CallAxiosGet ?u])"
  let ?s3 = "(sample_world ?lib [Inr catalog_answer],
              [CallGet ''alice'', CallAxiosGet ?u, CallAxiosGet ?u])"
  have got: "User_get ?env ''alice'' ?w = (Inr ?user, ?w)"
    by (simp add: sample_defs)
  have lib: "works ?user = Some ([entry 1 (Some 7)] @ entry 2 (Some 8) # [entry 3 (Some 9)])"
    by simp
  have many: "1 < length ([entry 1 (Some 7)] @ entry 2 (Some 8) # [entry 3 (Some 9)])"
    by simp
  have before: "enrich_works ?env [entry 1 (Some 7)] (?w, [CallGet ''alice'']) =
      (Inr [(entry 1 (Some 7))\<lparr>title := JStr ''Sonata'', composer := JStr ''Clara Schumann''\<rparr>],
       ?s2)"
    by (simp add: enrich_work_def lookup_work_def detail_url_def read_path_def
        handler_defs sample_defs)
  have wanted: "api_id (entry 2 (Some 8)) \<noteq> None"
    by (simp add: entry_def)
  have fails: "lookup_work ?env ?s2 = (Inl (ExternalError ''timeout''), ?s3)"
    by (simp add: lookup_work_def detail_url_def handler_defs sample_defs)
  show ?thesis
    by (rule get_user_failed_lookup_aborts [OF got lib many before wanted fails])
qed

text \<open>
  C9. When the user that User.get returns has no works list, an empty one, or one of
  exactly one entry, the handler makes no catalog request (the only call logged is the
  one to User.get) and responds 200 with that user, unchanged.
\<close>

theorem get_user_short_library_untouched:
  assumes "User_get env uname w = (Inr user, w')"
    and "works user = None \<or> (\<exists>ws. works user = Some ws \<and> length ws \<le> 1)"
  shows "get_user env uname (w, []) = (Respond 200 (UserBody user), (w', [CallGet uname]))"
  using assms
  by (auto simp: get_user_def get_user_body_def handler_defs)

theorem get_user_short_library_untouched_witness:
  "get_user sample_env ''alice'' (sample_world [entry 1 (Some 7)] [], []) =
     (Respond 200 (UserBody ((account_view alice_account)\<lparr>works := Some [entry 1 (Some 7)]\<rparr>)),
      (sample_world [entry 1 (Some 7)] [], [CallGet ''alice'']))"
proof -
  let ?user = "(account_view alice_account)\<lparr>works := Some [entry 1 (Some 7)]\<rparr>"
  have got: "User_get sample_env ''alice'' (sample_world [entry 1 (Some 7)] []) =
      (Inr ?user, sample_world [entry 1 (Some 7)] [])"
    by (simp add: sample_defs)
  have short: "works ?user = None \<or> (\<exists>ws. works ?user = Some ws \<and> length ws \<le> 1)"
    by simp
  show ?thesis
    by (rule get_user_short_library_untouched [OF got short])
qed

text \<open>
  C5. On GET /:username a caller who is not an admin and asks for another username is
  rejected with Forbidden, the handler not being run; the same caller asking for their
  own username reaches the handler.
\<close>

theorem route_get_user_self_or_forbidden:
  assumes "\<not> ident_isAdmin i"
  shows "(ident_username i \<noteq> uname \<longrightarrow>
            route_get_user env (Some i) uname s = (Next ForbiddenError, s))
       \<and> (ident_username i = uname \<longrightarrow>
            route_get_user env (Some i) uname s = get_user env uname s)"
  using assms by (simp add: route_get_user_def ensureCorrectUserOrAdmin_def guarded_def)

theorem route_get_user_self_or_forbidden_witness:
  "route_get_user sample_env (Some \<lparr>ident_username = ''alice'', ident_isAdmin = False\<rparr>) ''bob''
       (sample_world [] [], []) = (Next ForbiddenError, (sample_world [] [], []))
   \<and> route_get_user sample_env (Some \<lparr>ident_username = ''alice'', ident_isAdmin = False\<rparr>) ''alice''
       (sample_world [] [], []) =
     (Respond 200 (UserBody ((account_view alice_account)\<lparr>works := Some []\<rparr>)),
      (sample_world [] [], [CallGet ''alice'']))"
proof -
  let ?i = "\<lparr>ident_username = ''alice'', ident_isAdmin = False\<rparr>"
  have na: "\<not> ident_isAdmin ?i"
    by simp
  have run: "get_user sample_env ''alice'' (sample_world [] [], []) =
     (Respond 200 (UserBody ((account_view alice_account)\<lparr>works := Some []\<rparr>)),
      (sample_world [] [], [CallGet ''alice'']))"
    by (simp add: get_user_def get_user_body_def handler_defs sample_defs)
  from route_get_user_self_or_forbidden [OF na, of "''bob''" sample_env "(sample_world [] [], [])"]
    route_get_user_self_or_forbidden [OF na, of "''alice''" sample_env "(sample_world [] [], [])"]
    run
  show ?thesis by simp
qed

subsection \<open>PATCH /:username\<close>

text \<open>
  C3. A PATCH whose body passes the update schema and whose password does not verify
  (User.authenticate answers with a falsy value) fails with
  UnauthorizedError "Bad password"; the only call made is the one to User.authenticate,
  so User.update is not invoked, and the world is the one User.authenticate left.
\<close>

theorem patch_user_bad_password:
  assumes ok: "valid (jsonschema_validate env reqBody userUpdateSchema)"
    and pw: "getProp reqBody ''password'' = Inr pw"
    and auth: "User_authenticate env uname pw w = (Inr isValid, w')"
    and bad: "\<not> truthy isValid"
  shows "patch_user env uname reqBody (w, []) =
           (Next (UnauthorizedError ''Bad password''), (w', [CallAuthenticate uname pw]))"
  using assms by (simp add: patch_user_def patch_user_body_def handler_defs)

theorem patch_user_bad_password_witness:
  "patch_user sample_env ''alice''
       (JObj [(''name'', JStr ''Mallory''), (''password'', JStr ''guess'')])
       (sample_world [] [], []) =
     (Next (UnauthorizedError ''Bad password''),
      (sample_world [] [], [CallAuthenticate ''alice'' (JStr ''guess'')]))"
proof -
  let ?b = "JObj [(''name'', JStr ''Mallory''), (''password'', JStr ''guess'')]"
  have ok: "valid (jsonschema_validate sample_env ?b userUpdateSchema)"
    by (simp add: sample_defs)
  have pw: "getProp ?b ''password'' = Inr (JStr ''guess'')"
    by simp
  have auth: "User_authenticate sample_env ''alice'' (JStr ''guess'') (sample_world [] []) =
      (Inr (JBool False), sample_world [] [])"
    by (simp add: sample_defs)
  have bad: "\<not> truthy (JBool False)"
    by simp
  show ?thesis
    by (rule patch_user_bad_password [OF ok pw auth bad])
qed

text \<open>
  C6. A PATCH whose body fails the update schema fails with a BadRequestError carrying
  the stacks of the validator's errors, status 400; no call is made (the log stays
  empty and the world is untouched), so neither User.authenticate nor User.update runs.
\<close>

theorem patch_user_invalid_body:
  assumes "\<not> valid (jsonschema_validate env reqBody userUpdateSchema)"
  shows "patch_user env uname reqBody (w, []) =
           (Next (BadRequestError
                    (map stack (errors (jsonschema_validate env reqBody userUpdateSchema)))),
            (w, []))
       \<and> status_of (BadRequestError
                      (map stack (errors (jsonschema_validate env reqBody userUpdateSchema))))
           = Some 400"
  using assms by (simp add: patch_user_def patch_user_body_def handler_defs)

theorem patch_user_invalid_body_witness:
  "patch_user sample_env ''alice'' (JObj [(''name'', JStr ''Alicia'')]) (sample_world [] [], []) =
     (Next (BadRequestError [''instance does not match the schema'']), (sample_world [] [], []))
   \<and> status_of (BadRequestError [''instance does not match the schema'']) = Some 400"
proof -
  let ?b = "JObj [(''name'', JStr ''Alicia'')]"
  have bad: "\<not> valid (jsonschema_validate sample_env ?b userUpdateSchema)"
    by (simp add: sample_defs)
  have errs: "map stack (errors (jsonschema_validate sample_env ?b userUpdateSchema))
      = [''instance does not match the schema'']"
    by (simp add: sample_defs)
  from patch_user_invalid_body [OF bad, of "''alice''" "sample_world [] []"] errs
  show ?thesis by simp
qed

text \<open>
  C10. In PATCH /:username validation comes before authentication: for a body that fails
  the update schema the handler ends with the BadRequestError whatever User.authenticate
  would answer (any \<open>auth\<close> in its place gives the same outcome), and the log and the
  world are as before the request, so User.authenticate is not called.
\<close>

theorem patch_user_validates_before_authenticating:
  assumes "\<not> valid (jsonschema_validate env reqBody userUpdateSchema)"
  shows "patch_user (env\<lparr>User_authenticate := auth\<rparr>) uname reqBody (w, log) =
           (Next (BadRequestError
                    (map stack (errors (jsonschema_validate env reqBody userUpdateSchema)))),
            (w, log))"
  using assms by (simp add: patch_user_def patch_user_body_def handler_defs)

text \<open>A malformed body, and an authenticate that would reject it and wipe the directory.\<close>

theorem patch_user_validates_before_authenticating_witness:
  "patch_user
       (sample_env\<lparr>User_authenticate := (\<lambda>u pw w. (Inr (JBool False), w\<lparr>accounts := []\<rparr>))\<rparr>)
       ''alice'' (JObj [(''password'', JNum 5)]) (sample_world [] [], []) =
     (Next (BadRequestError [''instance does not match the schema'']), (sample_world [] [], []))"
proof -
  let ?b = "JObj [(''password'', JNum 5)]"
  have bad: "\<not> valid (jsonschema_validate sample_env ?b userUpdateSchema)"
    by (simp add: sample_defs)
  have errs: "map stack (errors (jsonschema_validate sample_env ?b userUpdateSchema))
      = [''instance does not match the schema'']"
    by (simp add: sample_defs)
  from patch_user_validates_before_authenticating [OF bad,
      of "\<lambda>u pw w. (Inr (JBool False), w\<lparr>accounts := []\<rparr>)" "''alice''" "sample_world [] []" "[]"]
    errs
  show ?thesis by simp
qed

subsection \<open>POST /\<close>

text \<open>A registration that succeeds leaves an account with that username and email.\<close>

lemma register_makes_present:
  assumes "register hash input dir = (Inr created, dir')"
  shows "\<exists>a \<in> set dir'. str_prop input ''username'' = Some (acc_username a) \<and>
           str_prop input ''email'' = Some (acc_email a)"
  using assms by (auto simp: register_def Let_def list_ex_iff split: option.splits if_splits)

text \<open>
  C4. With User.register as the spec describes it: a POST / whose username or email is
  already in the directory fails with Conflict, after the one call to User.register; no
  token is made and the world, the stored users included, is unchanged.
\<close>

theorem post_users_duplicate_conflict:
  assumes reg: "User_register env = directory_register hash"
    and ok: "valid (jsonschema_validate env reqBody userNewSchema)"
    and fields: "str_prop reqBody ''username'' = Some u" "str_prop reqBody ''name'' = Some n"
      "str_prop reqBody ''email'' = Some e" "str_prop reqBody ''password'' = Some p"
    and present: "list_ex (\<lambda>a. acc_username a = u \<or> acc_email a = e) (accounts w)"
  shows "post_users env reqBody (w, log) =
           (Next ConflictError, (w, log @ [CallRegister reqBody]))"
  using assms
  by (simp add: post_users_def post_users_body_def handler_defs directory_register_def
      register_def)

text \<open>
  bob is registered in an empty directory; a second registration with bob's username
  and another email, and one with another username and bob's email, both fail.
\<close>

theorem post_users_duplicate_conflict_witness:
  "post_users sample_env (new_user_body ''bob'' ''b@x.com'')
       (\<lparr>accounts = [], libraries = [], catalog = []\<rparr>, []) =
     (Respond 201 (UserToken (account_view bob_account) ''token-for-bob''),
      (\<lparr>accounts = [bob_account], libraries = [], catalog = []\<rparr>,
       [CallRegister (new_user_body ''bob'' ''b@x.com''),
        CallCreateToken (account_view bob_account)]))
   \<and> post_users sample_env (new_user_body ''bob'' ''other@x.com'')
       (\<lparr>accounts = [bob_account], libraries = [], catalog = []\<rparr>, []) =
     (Next ConflictError,
      (\<lparr>accounts = [bob_account], libraries = [], catalog = []\<rparr>,
       [CallRegister (new_user_body ''bob'' ''other@x.com'')]))
   \<and> post_users sample_env (new_user_body ''robert'' ''b@x.com'')
       (\<lparr>accounts = [bob_account], libraries = [], catalog = []\<rparr>, []) =
     (Next ConflictError,
      (\<lparr>accounts = [bob_account], libraries = [], catalog = []\<rparr>,
       [CallRegister (new_user_body ''robert'' ''b@x.com'')]))"
proof -
  let ?w1 = "\<lparr>accounts = [bob_account], libraries = [], catalog = []\<rparr>"
  have first: "post_users sample_env (new_user_body ''bob'' ''b@x.com'')
       (\<lparr>accounts = [], libraries = [], catalog = []\<rparr>, []) =
     (Respond 201 (UserToken (account_view bob_account) ''token-for-bob''),
      (?w1, [CallRegister (new_user_body ''bob'' ''b@x.com''),
             CallCreateToken (account_view bob_account)]))"
    by (simp add: post_users_def post_users_body_def handler_defs sample_defs bob_account_def)
  have reg: "User_register sample_env = directory_register sample_hash"
    by (simp add: sample_env_def)
  have ok: "valid (jsonschema_validate sample_env (new_user_body x y) userNewSchema)" for x y
    by (simp add: sample_defs)
  have f: "str_prop (new_user_body x y) ''username'' = Some x"
      "str_prop (new_user_body x y) ''name'' = Some ''N''"
      "str_prop (new_user_body x y) ''email'' = Some y"
      "str_prop (new_user_body x y) ''password'' = Some ''pw123''" for x y
    by (simp_all add: new_user_body_def str_prop_def)
  have p1: "list_ex (\<lambda>a. acc_username a = ''bob'' \<or> acc_email a = ''other@x.com'') (accounts ?w1)"
    by (simp add: bob_account_def)
  have p2: "list_ex (\<lambda>a. acc_username a = ''robert'' \<or> acc_email a = ''b@x.com'') (accounts ?w1)"
    by (simp add: bob_account_def)
  from first
    post_users_duplicate_conflict [OF reg ok f p1, of "[]"]
    post_users_duplicate_conflict [OF reg ok f p2, of "[]"]
  show ?thesis by simp
qed

text \<open>
  C7, as stated, fails: a body that passes the new-user schema, sent by an admin, does
  not always get 201. Here the username is taken; User.register fails and the handler
  ends with \<^verbatim>\<open>next(err)\<close>, no token made.
\<close>

theorem post_users_valid_body_not_created:
  "valid (jsonschema_validate sample_env (new_user_body ''alice'' ''new@example.org'') userNewSchema)
   \<and> ensureAdmin (Some admin_identity) = Inr ()
   \<and> route_post_users sample_env (Some admin_identity)
       (new_user_body ''alice'' ''new@example.org'') (sample_world [] [], []) =
     (Next ConflictError,
      (sample_world [] [], [CallRegister (new_user_body ''alice'' ''new@example.org'')]))"
  by (simp add: route_post_users_def post_users_def post_users_body_def ensureAdmin_def
      admin_identity_def handler_defs sample_defs)

text \<open>
  C7, amended. A POST / from an admin whose body passes the new-user schema and for
  which User.register returns a user is answered 201 with that user and the token
  createToken gives for it; User.register was called with the body, createToken with
  the user.
\<close>

theorem post_users_created:
  assumes admin: "ensureAdmin ident = Inr ()"
    and ok: "valid (jsonschema_validate env reqBody userNewSchema)"
    and reg: "User_register env reqBody w = (Inr user, w')"
  shows "route_post_users env ident reqBody (w, []) =
           (Respond 201 (UserToken user (createToken env user)),
            (w', [CallRegister reqBody, CallCreateToken user]))"
  using assms
  by (simp add: route_post_users_def post_users_def post_users_body_def handler_defs)

theorem post_users_created_witness:
  "route_post_users sample_env (Some admin_identity)
       (new_user_body ''carol'' ''carol@example.org'') (sample_world [] [], []) =
     (Respond 201 (UserToken (account_view carol_account) ''token-for-carol''),
      ((sample_world [] [])\<lparr>accounts := [alice_account, carol_account]\<rparr>,
       [CallRegister (new_user_body ''carol'' ''carol@example.org''),
        CallCreateToken (account_view carol_account)]))"
proof -
  let ?b = "new_user_body ''carol'' ''carol@example.org''"
  have admin: "ensureAdmin (Some admin_identity) = Inr ()"
    by (simp add: ensureAdmin_def admin_identity_def)
  have ok: "valid (jsonschema_validate sample_env ?b userNewSchema)"
    by (simp add: sample_defs)
  have reg: "User_register sample_env ?b (sample_world [] []) =
      (Inr (account_view carol_account),
       (sample_world [] [])\<lparr>accounts := [alice_account, carol_account]\<rparr>)"
    by (simp add: sample_defs carol_account_def)
  have tok: "createToken sample_env (account_view carol_account) = ''token-for-carol''"
    by (simp add: sample_defs carol_account_def)
  from post_users_created [OF admin ok reg] tok
  show ?thesis by simp
qed

subsection \<open>POST /:id/userLib/:workId\<close>

text \<open>
  C8. When User.addToUserLib succeeds, the handler has called it once, with the two path
  parameters (each converted by \<^verbatim>\<open>+\<close>), and responds 200 with \<open>added\<close> the workId
  parameter as it came.
\<close>

theorem post_userLib_added:
  assumes "User_addToUserLib env (unary_plus env idParam) (unary_plus env workId) w = (Inr (), w')"
  shows "post_userLib env idParam workId (w, []) =
           (Respond 200 (Added workId),
            (w', [CallAddToUserLib (unary_plus env idParam) (unary_plus env workId)]))"
  using assms by (simp add: post_userLib_def handler_defs)

theorem post_userLib_added_witness:
  "post_userLib sample_env ''1'' ''42'' (sample_world [] [], []) =
     (Respond 200 (Added ''42''), (sample_world [entry 42 None] [], [CallAddToUserLib 1 42]))"
proof -
  have call: "User_addToUserLib sample_env (unary_plus sample_env ''1'') (unary_plus sample_env ''42'')
      (sample_world [] []) = (Inr (), sample_world [entry 42 None] [])"
    by (simp add: sample_defs Let_def)
  have nums: "unary_plus sample_env ''1'' = 1" "unary_plus sample_env ''42'' = 42"
    by (simp_all add: sample_env_def sample_number_def)
  from post_userLib_added [OF call] nums
  show ?thesis by simp
qed

end
